theory Spec2Isabelle
  imports Complex_Main "HOL-Library.Sublist" "HOL-Library.Char_ord" "HOL-Library.List_Lexorder"
begin

section \<open>Data model\<close>

text \<open>
  Values that the client handles at run time: what \<^verbatim>\<open>await response.json()\<close> can
  return (None, bool, int, float, str, list, dict). A dict is the association list of its
  items in insertion order; \<open>JFloat\<close> carries the literal of the number.
\<close>

datatype pyval =
    JNull
  | JBool bool
  | JInt int
  | JFloat string
  | JStr string
  | JArr "pyval list"
  | JObj "(string \<times> pyval) list"

text \<open>One entry of a conversation: \<^verbatim>\<open>{"role": role, "content": content}\<close>.\<close>

record turn =
  role :: string
  content :: pyval

text \<open>
  The fields of \<^verbatim>\<open>OllamaClient\<close>: \<^verbatim>\<open>self.model\<close>, the total timeout in seconds and
  \<^verbatim>\<open>self.conversation_history: Dict[int, List[Dict]]\<close>.
\<close>

record ollama_client =
  model :: string
  timeout :: int
  conversation_history :: "int \<rightharpoonup> turn list"

section \<open>Conversation history (ollama\_client.py)\<close>

text \<open>Python's \<^verbatim>\<open>xs[-n:]\<close> for \<open>n > 0\<close>: the last \<open>n\<close> elements, all of them when there are fewer.\<close>

definition last_n :: "nat \<Rightarrow> 'a list \<Rightarrow> 'a list" where
  "last_n n xs = drop (length xs - n) xs"

text \<open>\<^verbatim>\<open>return self.conversation_history.get(user_id, [])\<close>\<close>

definition get_conversation :: "ollama_client \<Rightarrow> int \<Rightarrow> turn list" where
  "get_conversation c user_id =
     (case conversation_history c user_id of None \<Rightarrow> [] | Some ts \<Rightarrow> ts)"

text \<open>
  \<^verbatim>\<open>
  if user_id not in self.conversation_history:
      self.conversation_history[user_id] = []
  self.conversation_history[user_id].append({"role": role, "content": content})
  if len(self.conversation_history[user_id]) > 10:
      self.conversation_history[user_id] = self.conversation_history[user_id][-10:]
  \<close>
\<close>

definition add_to_conversation :: "ollama_client \<Rightarrow> int \<Rightarrow> string \<Rightarrow> pyval \<Rightarrow> ollama_client" where
  "add_to_conversation c user_id r ct =
     (let h0 = (case conversation_history c user_id of
                  None \<Rightarrow> (conversation_history c)(user_id \<mapsto> [])
                | Some _ \<Rightarrow> conversation_history c);
          cur = (case h0 user_id of None \<Rightarrow> [] | Some ts \<Rightarrow> ts);
          h1 = h0(user_id \<mapsto> cur @ [\<lparr>role = r, content = ct\<rparr>]);
          cur1 = (case h1 user_id of None \<Rightarrow> [] | Some ts \<Rightarrow> ts);
          h2 = (if length cur1 > 10 then h1(user_id \<mapsto> last_n 10 cur1) else h1)
      in c\<lparr>conversation_history := h2\<rparr>)"

text \<open>
  \<^verbatim>\<open>
  if user_id in self.conversation_history:
      self.conversation_history[user_id] = []
  \<close>
\<close>

definition clear_conversation :: "ollama_client \<Rightarrow> int \<Rightarrow> ollama_client" where
  "clear_conversation c user_id =
     (case conversation_history c user_id of
        None \<Rightarrow> c
      | Some _ \<Rightarrow> c\<lparr>conversation_history := (conversation_history c)(user_id \<mapsto> [])\<rparr>)"

text \<open>A run of appends to one user's conversation, each given as (role, content), in order.\<close>

fun append_all :: "ollama_client \<Rightarrow> int \<Rightarrow> (string \<times> pyval) list \<Rightarrow> ollama_client" where
  "append_all c user_id [] = c"
| "append_all c user_id ((r, ct) # rest) = append_all (add_to_conversation c user_id r ct) user_id rest"

definition as_turn :: "string \<times> pyval \<Rightarrow> turn" where
  "as_turn p = \<lparr>role = fst p, content = snd p\<rparr>"

section \<open>The generation call (ollama\_client.py)\<close>

text \<open>
  The exceptions that the \<^verbatim>\<open>except\<close> clauses of \<^verbatim>\<open>generate_response\<close> tell apart:
  \<^verbatim>\<open>aiohttp.ClientConnectorError\<close>, \<^verbatim>\<open>asyncio.TimeoutError\<close> and every other subclass of
  \<^verbatim>\<open>Exception\<close>. Each carries \<^verbatim>\<open>str(e)\<close>.
\<close>

datatype py_exception =
    ClientConnectorError string
  | TimeoutError string
  | OtherException string

text \<open>
  What the client observes of an HTTP response: \<^verbatim>\<open>response.status\<close>, the outcome of
  \<^verbatim>\<open>await response.json()\<close> and the outcome of \<^verbatim>\<open>await response.text()\<close>; both reads can raise.
\<close>

record http_response =
  status :: int
  json_result :: "py_exception + pyval"
  text_result :: "py_exception + string"

datatype post_outcome =
    PostRaises py_exception
  | PostResponds http_response

record gen_options =
  temperature :: rat
  num_predict :: int
  num_ctx :: int
  top_k :: int
  top_p :: rat

text \<open>The JSON body of the request; \<open>model_name\<close> is its \<^verbatim>\<open>"model"\<close> entry.\<close>

record payload =
  model_name :: string
  messages :: "turn list"
  stream :: bool
  options :: gen_options

text \<open>
  What one call \<^verbatim>\<open>session.post(OLLAMA_URL, json=payload)\<close> meets, as the backend decides it:
  the number of redirect responses that the HTTP client follows before the call ends (the
  source does not pass \<^verbatim>\<open>allow_redirects=False\<close>, so aiohttp follows them), and how the call
  ends.
\<close>

record exchange =
  redirects_followed :: nat
  outcome :: post_outcome

type_synonym backend = "payload \<Rightarrow> exchange"

text \<open>
  A request that the HTTP client issues: the POST that a call of \<^verbatim>\<open>session.post\<close> starts
  with, carrying the JSON body, or a request that the client issues by itself when it
  follows a redirect.
\<close>

datatype request =
    Post payload
  | Redirect_follow_up

fun is_post :: "request \<Rightarrow> bool" where
  "is_post (Post _) = True"
| "is_post Redirect_follow_up = False"

text \<open>
  \<^verbatim>\<open>session.post(OLLAMA_URL, json=payload)\<close>: the call issues its POST and one more request
  for each redirect it follows, and ends as the backend decides. \<open>issued\<close> is the list of
  the requests issued so far.
\<close>

definition session_post :: "backend \<Rightarrow> request list \<Rightarrow> payload \<Rightarrow> post_outcome \<times> request list" where
  "session_post post issued pl =
     (outcome (post pl),
      issued @ Post pl # replicate (redirects_followed (post pl)) Redirect_follow_up)"

text \<open>\<^verbatim>\<open>type(v).__name__\<close>\<close>

fun type_name :: "pyval \<Rightarrow> string" where
  "type_name JNull = ''NoneType''"
| "type_name (JBool _) = ''bool''"
| "type_name (JInt _) = ''int''"
| "type_name (JFloat _) = ''float''"
| "type_name (JStr _) = ''str''"
| "type_name (JArr _) = ''list''"
| "type_name (JObj _) = ''dict''"

text \<open>
  \<^verbatim>\<open>v.get(key, default)\<close>: a dict lookup with a default; on any other value the attribute
  is missing and Python raises AttributeError, whose text quotes the type's name.
\<close>

definition no_attribute_get :: "pyval \<Rightarrow> py_exception" where
  "no_attribute_get v =
     OtherException ([CHR 0x27] @ type_name v @ [CHR 0x27] @ '' object has no attribute ''
                     @ [CHR 0x27] @ ''get'' @ [CHR 0x27])"

fun py_get :: "pyval \<Rightarrow> string \<Rightarrow> pyval \<Rightarrow> py_exception + pyval" where
  "py_get (JObj items) key dflt = Inr (case map_of items key of None \<Rightarrow> dflt | Some v \<Rightarrow> v)"
| "py_get v key dflt = Inl (no_attribute_get v)"

text \<open>\<^verbatim>\<open>str(n)\<close> of an integer, in decimal.\<close>

fun str_nat :: "nat \<Rightarrow> string" where
  "str_nat n =
     (if n < 10 then [char_of (48 + n)] else str_nat (n div 10) @ [char_of (48 + n mod 10)])"

definition str_int :: "int \<Rightarrow> string" where
  "str_int i = (if i < 0 then ''-'' @ str_nat (nat (- i)) else str_nat (nat i))"

text \<open>
  \<^verbatim>\<open>
  messages = [{"role": "system", "content": system_prompt}]
  history = self.get_conversation(user_id)
  messages.extend(history)
  messages.append({"role": "user", "content": message})
  \<close>
\<close>

definition build_messages :: "ollama_client \<Rightarrow> int \<Rightarrow> string \<Rightarrow> string \<Rightarrow> turn list" where
  "build_messages c user_id message system_prompt =
     (let messages0 = [\<lparr>role = ''system'', content = JStr system_prompt\<rparr>];
          history = get_conversation c user_id;
          messages1 = messages0 @ history
      in messages1 @ [\<lparr>role = ''user'', content = JStr message\<rparr>])"

definition build_payload :: "ollama_client \<Rightarrow> int \<Rightarrow> string \<Rightarrow> string \<Rightarrow> payload" where
  "build_payload c user_id message system_prompt =
     \<lparr>model_name = model c,
      messages = build_messages c user_id message system_prompt,
      stream = False,
      options = \<lparr>temperature = 8 / 10, num_predict = 500, num_ctx = 4096,
                 top_k = 40, top_p = 9 / 10\<rparr>\<rparr>"

text \<open>
  The body of the \<^verbatim>\<open>try\<close> block. It yields the raised exception or the returned value,
  the client as the body left it, and the requests issued so far.
\<close>

definition try_body ::
  "backend \<Rightarrow> request list \<Rightarrow> ollama_client \<Rightarrow> int \<Rightarrow> string \<Rightarrow> string \<Rightarrow>
   (py_exception + pyval) \<times> ollama_client \<times> request list" where
  "try_body post issued c user_id message system_prompt =
     (let pl = build_payload c user_id message system_prompt
      in case session_post post issued pl of
           (PostRaises e, issued') \<Rightarrow> (Inl e, c, issued')
         | (PostResponds response, issued') \<Rightarrow>
             if status response = 200 then
               (case json_result response of
                  Inl e \<Rightarrow> (Inl e, c, issued')
                | Inr result \<Rightarrow>
                    (case py_get result ''message'' (JObj []) of
                       Inl e \<Rightarrow> (Inl e, c, issued')
                     | Inr msg \<Rightarrow>
                         (case py_get msg ''content'' (JStr []) of
                            Inl e \<Rightarrow> (Inl e, c, issued')
                          | Inr bot_response \<Rightarrow>
                              (let c1 = add_to_conversation c user_id ''user'' (JStr message);
                                   c2 = add_to_conversation c1 user_id ''assistant'' bot_response
                               in (Inr bot_response, c2, issued')))))
             else
               (case text_result response of
                  Inl e \<Rightarrow> (Inl e, c, issued')
                | Inr error_text \<Rightarrow>
                    (Inr (JStr (''Sorry, I got a '' @ str_int (status response)
                                @ '' error. Let me try again?'')), c, issued')))"

text \<open>The \<^verbatim>\<open>except\<close> clauses, in the order of the source.\<close>

fun handle_exception :: "py_exception \<Rightarrow> string" where
  "handle_exception (ClientConnectorError _) =
     ''I can't reach my brain right now! Is Ollama running? Try: ollama serve''"
| "handle_exception (TimeoutError _) =
     ''I'm taking too long to think... maybe we should talk about something simpler?''"
| "handle_exception (OtherException e) = ''Oops! Something went wrong: '' @ e"

definition generate_response ::
  "backend \<Rightarrow> request list \<Rightarrow> ollama_client \<Rightarrow> int \<Rightarrow> string \<Rightarrow> string \<Rightarrow>
   pyval \<times> ollama_client \<times> request list" where
  "generate_response post issued c user_id message system_prompt =
     (case try_body post issued c user_id message system_prompt of
        (Inr v, c', issued') \<Rightarrow> (v, c', issued')
      | (Inl e, c', issued') \<Rightarrow> (JStr (handle_exception e), c', issued'))"

text \<open>
  \<^verbatim>\<open>
  enhanced_prompt = system_prompt
  if memory_context:
      enhanced_prompt += f"\n\nCONTEXT ABOUT YOUR FRIEND:\n{memory_context}"
  \<close>
\<close>

definition enhanced_prompt :: "string \<Rightarrow> string \<Rightarrow> string" where
  "enhanced_prompt system_prompt memory_context =
     (if memory_context \<noteq> []
      then system_prompt @ ''\<newline>\<newline>CONTEXT ABOUT YOUR FRIEND:\<newline>'' @ memory_context
      else system_prompt)"

definition generate_with_memory ::
  "backend \<Rightarrow> request list \<Rightarrow> ollama_client \<Rightarrow> int \<Rightarrow> string \<Rightarrow> string \<Rightarrow> string \<Rightarrow>
   pyval \<times> ollama_client \<times> request list" where
  "generate_with_memory post issued c user_id message system_prompt memory_context =
     generate_response post issued c user_id message
       (enhanced_prompt system_prompt memory_context)"

section \<open>Stored facts and tasks (memory\_manager.py)\<close>

text \<open>A row of the \<^verbatim>\<open>facts\<close> table: fact\_id, user\_id, content, created\_at.\<close>

record fact_row =
  row_fact_id :: string
  row_user_id :: int
  row_content :: string
  row_created_at :: string

text \<open>What \<^verbatim>\<open>get_facts\<close> returns for a row.\<close>

record fact =
  fact_id :: string
  fact_content :: string
  created_at :: string

text \<open>
  A row of the \<^verbatim>\<open>tasks\<close> table: task\_id, user\_id, description, due\_date, completed
  (0 or 1), priority, created\_at.
\<close>

record task_row =
  trow_task_id :: string
  trow_user_id :: int
  trow_description :: string
  trow_due_date :: string
  trow_completed :: int
  trow_priority :: string
  trow_created_at :: string

text \<open>What \<^verbatim>\<open>get_tasks\<close> returns for a row.\<close>

record task =
  task_id :: string
  description :: string
  due_date :: string
  completed :: bool
  priority :: string

text \<open>
  \<^verbatim>\<open>ORDER BY\<close>: \<open>precedes a b\<close> says that row \<open>a\<close> sorts strictly before row \<open>b\<close>.
  Rows that tie keep the order of the table (SQLite leaves their order open).
\<close>

fun insert_by :: "('a \<Rightarrow> 'a \<Rightarrow> bool) \<Rightarrow> 'a \<Rightarrow> 'a list \<Rightarrow> 'a list" where
  "insert_by precedes r [] = [r]"
| "insert_by precedes r (x # xs) =
     (if precedes x r then x # insert_by precedes r xs else r # x # xs)"

definition order_by :: "('a \<Rightarrow> 'a \<Rightarrow> bool) \<Rightarrow> 'a list \<Rightarrow> 'a list" where
  "order_by precedes rows = foldr (insert_by precedes) rows []"

text \<open>
  \<^verbatim>\<open>SELECT * FROM facts WHERE user_id = ? ORDER BY created_at DESC\<close>, each row returned as
  \<^verbatim>\<open>{"fact_id": ..., "content": ..., "created_at": ...}\<close>.
\<close>

definition get_facts :: "fact_row list \<Rightarrow> int \<Rightarrow> fact list" where
  "get_facts facts_table user_id =
     map (\<lambda>r. \<lparr>fact_id = row_fact_id r, fact_content = row_content r,
                created_at = row_created_at r\<rparr>)
         (order_by (\<lambda>a b. row_created_at a > row_created_at b)
                   (filter (\<lambda>r. row_user_id r = user_id) facts_table))"

text \<open>
  \<^verbatim>\<open>SELECT * FROM tasks WHERE user_id = ? AND completed = ?
  ORDER BY priority DESC, created_at DESC\<close> with the second parameter
  \<^verbatim>\<open>1 if completed else 0\<close>.
\<close>

definition get_tasks :: "task_row list \<Rightarrow> int \<Rightarrow> bool \<Rightarrow> task list" where
  "get_tasks tasks_table user_id done =
     map (\<lambda>r. \<lparr>task_id = trow_task_id r, description = trow_description r,
                due_date = trow_due_date r, completed = (trow_completed r \<noteq> 0),
                priority = trow_priority r\<rparr>)
         (order_by (\<lambda>a b. trow_priority a > trow_priority b
                       \<or> (trow_priority a = trow_priority b
                           \<and> trow_created_at a > trow_created_at b))
                   (filter (\<lambda>r. trow_user_id r = user_id
                                \<and> trow_completed r = (if done then 1 else 0)) tasks_table))"

section \<open>The memory digest (main.py, handle\_message)\<close>

text \<open>
  \<^verbatim>\<open>
  memory_context = ""
  facts = memory.get_facts(user_id)
  if facts:
      memory_context = "I remember:\n"
      for fact in facts[-3:]:
          memory_context += f"- {fact['content']}\n"
  tasks = memory.get_tasks(user_id, completed=False)
  if tasks:
      memory_context += "\nCurrent tasks:\n"
      for task in tasks[:3]:
          memory_context += f"- {task['description']}\n"
  \<close>
\<close>

definition facts_section :: "fact list \<Rightarrow> string" where
  "facts_section facts =
     (if facts \<noteq> []
      then foldl (\<lambda>memory_context f. memory_context @ ''- '' @ fact_content f @ ''\<newline>'')
                 ''I remember:\<newline>'' (last_n 3 facts)
      else [])"

definition tasks_section :: "string \<Rightarrow> task list \<Rightarrow> string" where
  "tasks_section memory_context tasks =
     (if tasks \<noteq> []
      then foldl (\<lambda>memory_context t. memory_context @ ''- '' @ description t @ ''\<newline>'')
                 (memory_context @ ''\<newline>Current tasks:\<newline>'') (take 3 tasks)
      else memory_context)"

definition build_memory_context :: "fact list \<Rightarrow> task list \<Rightarrow> string" where
  "build_memory_context facts tasks = tasks_section (facts_section facts) tasks"

definition memory_context_of :: "fact_row list \<Rightarrow> task_row list \<Rightarrow> int \<Rightarrow> string" where
  "memory_context_of facts_table tasks_table user_id =
     build_memory_context (get_facts facts_table user_id) (get_tasks tasks_table user_id False)"

section \<open>Mood detection (bot\_config.py, memory\_manager.py)\<close>

record mood_config =
  tone :: string
  triggers :: "string list"
  response_style :: string

text \<open>The \<^verbatim>\<open>MOODS\<close> dict, its items in declaration order.\<close>

definition MOODS :: "(string \<times> mood_config) list" where
  "MOODS =
     [(''caring'',
       \<lparr>tone = ''warm, nurturing, supportive'',
        triggers = [''sad'', ''upset'', ''cry'', ''hurt'', ''pain'', ''lonely'', ''miss''],
        response_style = ''gentle and comforting''\<rparr>),
      (''playful'',
       \<lparr>tone = ''fun, lighthearted, teasing'',
        triggers = [''joke'', ''fun'', ''laugh'', ''haha'', ''lol'', ''game'', ''play''],
        response_style = ''cheerful and humorous''\<rparr>),
      (''serious'',
       \<lparr>tone = ''thoughtful, focused, direct'',
        triggers = [''important'', ''serious'', ''problem'', ''issue'', ''decision'', ''help''],
        response_style = ''clear and focused''\<rparr>),
      (''supportive'',
       \<lparr>tone = ''encouraging, motivating, uplifting'',
        triggers = [''try'', ''goal'', ''dream'', ''achieve'', ''study'', ''work'', ''motivate''],
        response_style = ''encouraging and motivational''\<rparr>),
      (''protective'',
       \<lparr>tone = ''concerned, watchful, supportive'',
        triggers = [''scared'', ''danger'', ''worried'', ''anxiety'', ''fear'', ''unsafe''],
        response_style = ''reassuring and protective''\<rparr>),
      (''calm'',
       \<lparr>tone = ''peaceful, soothing, patient'',
        triggers = [''stressed'', ''tired'', ''anxiety'', ''relax'', ''calm'', ''breathe''],
        response_style = ''gentle and soothing''\<rparr>),
      (''happy'',
       \<lparr>tone = ''joyful, excited, celebrating'',
        triggers = [''happy'', ''excited'', ''celebrate'', ''good news'', ''success'', ''won''],
        response_style = ''enthusiastic and celebratory''\<rparr>)]"

text \<open>
  \<^verbatim>\<open>str.lower()\<close> on text whose code points are below 256 (one \<open>char\<close> each): the
  letters A-Z and the capital letters of Latin-1 (0xC0-0xDE without 0xD7) move up by 32.
\<close>

definition lower_char :: "char \<Rightarrow> char" where
  "lower_char ch =
     (let n = (of_char ch :: nat)
      in if (65 \<le> n \<and> n \<le> 90) \<or> (192 \<le> n \<and> n \<le> 222 \<and> n \<noteq> 215)
         then char_of (n + 32) else ch)"

definition lower :: "string \<Rightarrow> string" where
  "lower s = map lower_char s"

text \<open>\<^verbatim>\<open>sum(1 for trigger in config["triggers"] if trigger in message_lower)\<close>\<close>

definition trigger_score :: "mood_config \<Rightarrow> string \<Rightarrow> nat" where
  "trigger_score config message_lower =
     length (filter (\<lambda>trigger. sublist trigger message_lower) (triggers config))"

text \<open>\<^verbatim>\<open>d[key] = value\<close> on a dict kept as its items in insertion order.\<close>

fun dict_set :: "('k \<times> 'v) list \<Rightarrow> 'k \<Rightarrow> 'v \<Rightarrow> ('k \<times> 'v) list" where
  "dict_set [] key v = [(key, v)]"
| "dict_set ((k, w) # rest) key v =
     (if k = key then (k, v) # rest else (k, w) # dict_set rest key v)"

text \<open>
  \<^verbatim>\<open>
  for mood, config in MOODS.items():
      score = sum(...)
      if score > 0:
          mood_scores[mood] = score
  \<close>
\<close>

definition score_step ::
  "string \<Rightarrow> (string \<times> nat) list \<Rightarrow> string \<times> mood_config \<Rightarrow> (string \<times> nat) list" where
  "score_step message_lower mood_scores item =
     (let score = trigger_score (snd item) message_lower
      in if score > 0 then dict_set mood_scores (fst item) score else mood_scores)"

definition collect_scores :: "(string \<times> mood_config) list \<Rightarrow> string \<Rightarrow> (string \<times> nat) list" where
  "collect_scores moods message_lower = foldl (score_step message_lower) [] moods"

text \<open>
  \<^verbatim>\<open>max(d, key=d.get)\<close> over the keys of a dict: the scan keeps the first key and replaces
  it only by a key whose value is strictly greater. \<open>max_scan\<close> runs over the items, so
  that \<open>d.get\<close> of a key is the second component of its item.
\<close>

fun max_scan :: "'k \<times> nat \<Rightarrow> ('k \<times> nat) list \<Rightarrow> 'k \<times> nat" where
  "max_scan best [] = best"
| "max_scan best (item # rest) = max_scan (if snd item > snd best then item else best) rest"

definition detect_mood :: "string \<Rightarrow> string" where
  "detect_mood message =
     (let message_lower = lower message;
          mood_scores = collect_scores MOODS message_lower
      in case mood_scores of
           [] \<Rightarrow> ''caring''
         | first # rest \<Rightarrow> fst (max_scan first rest))"

section \<open>Vocabulary of the properties\<close>

text \<open>
  The two \<^verbatim>\<open>.get\<close> calls on a payload raise when the payload is not a dict, or when its
  \<^verbatim>\<open>"message"\<close> entry is present and not a dict.
\<close>

fun lookups_raise :: "pyval \<Rightarrow> bool" where
  "lookups_raise (JObj items) =
     (case map_of items ''message'' of
        None \<Rightarrow> False
      | Some (JObj _) \<Rightarrow> False
      | Some _ \<Rightarrow> True)"
| "lookups_raise _ = True"

text \<open>\<^verbatim>\<open>message.content\<close> of a payload, when the payload has one.\<close>

fun content_of :: "pyval \<Rightarrow> pyval option" where
  "content_of (JObj items) =
     (case map_of items ''message'' of
        Some (JObj msg) \<Rightarrow> map_of msg ''content''
      | _ \<Rightarrow> None)"
| "content_of _ = None"

fun is_text :: "pyval \<Rightarrow> bool" where
  "is_text (JStr _) = True"
| "is_text _ = False"

text \<open>
  A reply payload is well formed when it is a JSON object whose \<^verbatim>\<open>message\<close>, when present,
  is an object, and whose \<^verbatim>\<open>message.content\<close>, when present, is a string.
\<close>

definition well_formed_payload :: "pyval \<Rightarrow> bool" where
  "well_formed_payload result =
     (if lookups_raise result then False
      else (case content_of result of None \<Rightarrow> True | Some v \<Rightarrow> is_text v))"

text \<open>
  The model call fails when the request raises (connection error, timeout, any other
  exception), when the status is not 200, or when the status is 200 and the body cannot be
  read as JSON or is not a well-formed payload.
\<close>

fun call_failed :: "post_outcome \<Rightarrow> bool" where
  "call_failed (PostRaises _) = True"
| "call_failed (PostResponds response) =
     (if status response = 200
      then (case json_result response of
              Inl _ \<Rightarrow> True
            | Inr result \<Rightarrow> \<not> well_formed_payload result)
      else True)"

text \<open>
  The one malformed reply on which no \<^verbatim>\<open>.get\<close> raises: status 200 and a payload whose
  \<^verbatim>\<open>message.content\<close> is present and is not a string.
\<close>

fun content_not_text :: "post_outcome \<Rightarrow> bool" where
  "content_not_text (PostRaises _) = False"
| "content_not_text (PostResponds response) =
     (if status response = 200
      then (case json_result response of
              Inl _ \<Rightarrow> False
            | Inr result \<Rightarrow>
                (if lookups_raise result then False
                 else (case content_of result of None \<Rightarrow> False | Some v \<Rightarrow> \<not> is_text v)))
      else False)"

text \<open>The bullets of a digest section, one line \<^verbatim>\<open>- <text>\<close> for each entry.\<close>

definition bullets :: "string list \<Rightarrow> string" where
  "bullets xs = concat (map (\<lambda>x. ''- '' @ x @ ''\<newline>'') xs)"

text \<open>A row of the table \<open>MOODS\<close> with its score for a lower-cased text.\<close>

definition scored :: "string \<Rightarrow> string \<times> mood_config \<Rightarrow> string \<times> nat" where
  "scored ml item = (fst item, trigger_score (snd item) ml)"

section \<open>Properties of the conversation history\<close>

lemma last_n_length: "length (last_n n xs) = min n (length xs)"
  by (simp add: last_n_def)

lemma last_n_idem_append: "last_n n (last_n n xs @ ys) = last_n n (xs @ ys)"
proof -
  have "length xs + length ys - (length xs - n + n) + (length xs - n) = length xs + length ys - n"
    by arith
  then show ?thesis
    by (simp add: last_n_def)
qed

lemma last_n_all: "length xs \<le> n \<Longrightarrow> last_n n xs = xs"
  by (simp add: last_n_def)

lemma get_add_to_conversation:
  "get_conversation (add_to_conversation c u r ct) u =
     last_n 10 (get_conversation c u @ [\<lparr>role = r, content = ct\<rparr>])"
  by (auto simp: get_conversation_def add_to_conversation_def Let_def last_n_def
           split: option.splits)

lemma get_add_to_conversation_other:
  "v \<noteq> u \<Longrightarrow> conversation_history (add_to_conversation c u r ct) v = conversation_history c v"
  by (auto simp: add_to_conversation_def Let_def split: option.splits)

lemma get_append_all:
  "ps \<noteq> [] \<Longrightarrow>
   get_conversation (append_all c u ps) u = last_n 10 (get_conversation c u @ map as_turn ps)"
proof (induction ps arbitrary: c)
  case Nil
  then show ?case by simp
next
  case (Cons p ps)
  obtain r ct where p: "p = (r, ct)" by (cases p)
  show ?case
  proof (cases "ps = []")
    case True
    then show ?thesis
      by (simp add: p get_add_to_conversation as_turn_def)
  next
    case False
    then show ?thesis
      using Cons.IH [of "add_to_conversation c u r ct"]
      by (simp add: p get_add_to_conversation as_turn_def last_n_idem_append)
  qed
qed

lemma get_clear_conversation: "get_conversation (clear_conversation c u) u = []"
  by (simp add: get_conversation_def clear_conversation_def split: option.splits)

text \<open>
  Claim C2. From any client state, after 10 + k appends (k \<ge> 1) to one user's conversation
  through \<open>add_to_conversation\<close>, the stored sequence is the last 10 appended turns in
  their append order (the first k are evicted), its length is exactly 10, and after every
  single append of the run the length is at most 10.
\<close>

theorem add_to_conversation_fifo_cap:
  assumes "length ps = 10 + k" and "1 \<le> k"
  shows "get_conversation (append_all c u ps) u = last_n 10 (map as_turn ps)
       \<and> last_n 10 (map as_turn ps) = drop k (map as_turn ps)
       \<and> length (get_conversation (append_all c u ps) u) = 10
       \<and> (\<forall>n. 0 < n \<and> n \<le> length ps \<longrightarrow>
              length (get_conversation (append_all c u (take n ps)) u) \<le> 10)"
proof -
  from assms have ne: "ps \<noteq> []" by auto
  have len: "length (map as_turn ps) \<ge> 10" using assms by simp
  have "last_n 10 (get_conversation c u @ map as_turn ps) = last_n 10 (map as_turn ps)"
    using len by (simp add: last_n_def)
  then have a: "get_conversation (append_all c u ps) u = last_n 10 (map as_turn ps)"
    using get_append_all [OF ne] by simp
  have b: "last_n 10 (map as_turn ps) = drop k (map as_turn ps)"
    using assms by (simp add: last_n_def)
  have c: "length (get_conversation (append_all c u ps) u) = 10"
    using a assms by (simp add: last_n_length)
  have d: "length (get_conversation (append_all c u (take n ps)) u) \<le> 10"
    if "0 < n \<and> n \<le> length ps" for n
  proof -
    from that ne have "take n ps \<noteq> []" by auto
    from get_append_all [OF this] show ?thesis by (simp add: last_n_length)
  qed
  from a b c d show ?thesis by blast
qed

theorem add_to_conversation_fifo_cap_witness:
  "length (map (\<lambda>i. (''user'', JInt i)) [1..12]) = 10 + 2 \<and> (1::nat) \<le> 2
   \<and> get_conversation
        (append_all \<lparr>model = ''qwen2.5'', timeout = 120,
                     conversation_history = [5 \<mapsto> [\<lparr>role = ''user'', content = JStr ''hi''\<rparr>]]\<rparr>
                    5 (map (\<lambda>i. (''user'', JInt i)) [1..12])) 5
     = map (\<lambda>i. \<lparr>role = ''user'', content = JInt i\<rparr>) [3..12]"
proof -
  have h1: "length (map (\<lambda>i. (''user'', JInt i)) [1..12]) = 10 + 2" by simp
  have h2: "(1::nat) \<le> 2" by simp
  have e: "drop 2 (map as_turn (map (\<lambda>i. (''user'', JInt i)) [1..12]))
           = map (\<lambda>i. \<lparr>role = ''user'', content = JInt i\<rparr>) [3..12]"
    by code_simp
  show ?thesis
    using add_to_conversation_fifo_cap [OF h1 h2] h1 h2 e by simp
qed

text \<open>
  Claim C9. \<open>get_conversation\<close> of an unknown user is the empty sequence (the function is
  total: no branch raises); \<open>clear_conversation\<close> leaves the client unchanged for an
  unknown user and is idempotent; for a known user it stores the empty sequence under the
  user's key (the entry stays present), so that a following get returns the empty sequence
  and a following append gives a sequence of exactly the appended turn. Other users'
  entries are not touched.
\<close>

theorem conversation_get_clear:
  "(conversation_history c u = None \<longrightarrow>
      get_conversation c u = [] \<and> clear_conversation c u = c)
   \<and> (conversation_history c u \<noteq> None \<longrightarrow>
      conversation_history (clear_conversation c u) u = Some [])
   \<and> clear_conversation (clear_conversation c u) u = clear_conversation c u
   \<and> get_conversation (clear_conversation c u) u = []
   \<and> get_conversation (add_to_conversation (clear_conversation c u) u r ct) u
       = [\<lparr>role = r, content = ct\<rparr>]
   \<and> (\<forall>v. v \<noteq> u \<longrightarrow>
         conversation_history (clear_conversation c u) v = conversation_history c v)"
proof -
  have a: "conversation_history c u = None \<longrightarrow>
      get_conversation c u = [] \<and> clear_conversation c u = c"
    by (simp add: get_conversation_def clear_conversation_def)
  have b: "conversation_history c u \<noteq> None \<longrightarrow>
      conversation_history (clear_conversation c u) u = Some []"
    by (auto simp: clear_conversation_def)
  have c: "clear_conversation (clear_conversation c u) u = clear_conversation c u"
    by (simp add: clear_conversation_def split: option.splits)
  have d: "get_conversation (add_to_conversation (clear_conversation c u) u r ct) u
       = [\<lparr>role = r, content = ct\<rparr>]"
    by (simp add: get_add_to_conversation get_clear_conversation last_n_def)
  have e: "\<forall>v. v \<noteq> u \<longrightarrow>
         conversation_history (clear_conversation c u) v = conversation_history c v"
    by (simp add: clear_conversation_def split: option.splits)
  from a b c d e get_clear_conversation show ?thesis by blast
qed

theorem conversation_get_clear_witness:
  "conversation_history \<lparr>model = ''qwen2.5'', timeout = 120, conversation_history = Map.empty\<rparr> 5 = None
   \<and> get_conversation \<lparr>model = ''qwen2.5'', timeout = 120, conversation_history = Map.empty\<rparr> 5 = []
   \<and> conversation_history
        \<lparr>model = ''qwen2.5'', timeout = 120,
         conversation_history = [5 \<mapsto> [\<lparr>role = ''user'', content = JStr ''hi''\<rparr>]]\<rparr> 5 \<noteq> None
   \<and> conversation_history
        (clear_conversation
           \<lparr>model = ''qwen2.5'', timeout = 120,
            conversation_history = [5 \<mapsto> [\<lparr>role = ''user'', content = JStr ''hi''\<rparr>]]\<rparr> 5) 5
       = Some []
   \<and> (6::int) \<noteq> 5
   \<and> conversation_history
        (clear_conversation
           \<lparr>model = ''qwen2.5'', timeout = 120,
            conversation_history = [5 \<mapsto> [\<lparr>role = ''user'', content = JStr ''hi''\<rparr>]]\<rparr> 5) 6
       = None"
  using conversation_get_clear
          [of "\<lparr>model = ''qwen2.5'', timeout = 120, conversation_history = Map.empty\<rparr>" 5]
        conversation_get_clear
          [of "\<lparr>model = ''qwen2.5'', timeout = 120,
                conversation_history = [5 \<mapsto> [\<lparr>role = ''user'', content = JStr ''hi''\<rparr>]]\<rparr>" 5]
  by simp

section \<open>Properties of the generation call\<close>

lemma handle_exception_nonempty: "handle_exception e \<noteq> []"
  by (cases e) simp_all

lemma py_get_lookups_raise:
  "lookups_raise result \<Longrightarrow>
   (case py_get result ''message'' (JObj []) of
      Inl e \<Rightarrow> True
    | Inr msg \<Rightarrow> (case py_get msg ''content'' (JStr []) of Inl e \<Rightarrow> True | Inr _ \<Rightarrow> False))"
  by (cases result) (auto split: option.splits pyval.splits)

lemma py_get_Inl: "py_get v key dflt = Inl e \<Longrightarrow> e = no_attribute_get v"
  by (cases v) auto

lemma not_well_formed_cases:
  "\<not> well_formed_payload result \<Longrightarrow>
   lookups_raise result \<or> (\<exists>v. content_of result = Some v \<and> \<not> is_text v)"
  by (auto simp: well_formed_payload_def split: if_splits option.splits)

lemma try_body_failed:
  assumes "call_failed (outcome (post (build_payload c u m sp)))"
    and "\<not> content_not_text (outcome (post (build_payload c u m sp)))"
  shows "\<exists>r. try_body post issued c u m sp
               = (r, c, snd (session_post post issued (build_payload c u m sp)))
            \<and> (case r of Inl e \<Rightarrow> True | Inr v \<Rightarrow> \<exists>s. v = JStr s \<and> s \<noteq> [])"
proof (cases "outcome (post (build_payload c u m sp))")
  case (PostRaises e)
  then show ?thesis by (simp add: try_body_def session_post_def Let_def)
next
  case (PostResponds response)
  show ?thesis
  proof (cases "status response = 200")
    case False
    with PostResponds show ?thesis
      by (auto simp: try_body_def session_post_def Let_def split: sum.splits)
  next
    case True
    show ?thesis
    proof (cases "json_result response")
      case (Inl e)
      with True PostResponds show ?thesis
        by (simp add: try_body_def session_post_def Let_def)
    next
      case (Inr result)
      with True PostResponds assms(1) have "\<not> well_formed_payload result" by simp
      from not_well_formed_cases [OF this] Inr True PostResponds assms(2)
      have "lookups_raise result" by (auto split: if_splits)
      from py_get_lookups_raise [OF this] Inr True PostResponds show ?thesis
        by (auto simp: try_body_def session_post_def Let_def split: sum.splits)
    qed
  qed
qed

lemma try_body_success:
  assumes "outcome (post (build_payload c u m sp)) = PostResponds response"
    and "status response = 200"
    and "json_result response = Inr (JObj items)"
    and "map_of items ''message'' = Some (JObj msg) \<or> (map_of items ''message'' = None \<and> msg = [])"
  shows "try_body post issued c u m sp =
           (Inr (case map_of msg ''content'' of None \<Rightarrow> JStr [] | Some v \<Rightarrow> v),
            add_to_conversation (add_to_conversation c u ''user'' (JStr m)) u ''assistant''
              (case map_of msg ''content'' of None \<Rightarrow> JStr [] | Some v \<Rightarrow> v),
            snd (session_post post issued (build_payload c u m sp)))"
  using assms by (auto simp: try_body_def session_post_def Let_def)

lemma generate_response_issued:
  "snd (snd (generate_response post issued c u m sp))
     = snd (session_post post issued (build_payload c u m sp))"
  by (simp add: generate_response_def try_body_def session_post_def Let_def
           split: post_outcome.splits sum.splits prod.splits)

text \<open>
  Claim C1, as stated, fails on a malformed payload that raises nowhere: with status 200
  and \<^verbatim>\<open>{"message": {"content": 42}}\<close> the call has failed (the content is not a string),
  yet \<open>generate_response\<close> returns the number 42, not a fallback string, and appends two
  turns to the user's history.
\<close>

theorem generate_response_accepts_non_text_content:
  "call_failed
     (PostResponds \<lparr>status = 200,
                    json_result = Inr (JObj [(''message'', JObj [(''content'', JInt 42)])]),
                    text_result = Inr []\<rparr>)
   \<and> get_conversation
         \<lparr>model = ''qwen2.5'', timeout = 120, conversation_history = Map.empty\<rparr> 5 = []
   \<and> fst (generate_response
            (\<lambda>p. \<lparr>redirects_followed = 0,
                   outcome = PostResponds
                     \<lparr>status = 200,
                      json_result = Inr (JObj [(''message'', JObj [(''content'', JInt 42)])]),
                      text_result = Inr []\<rparr>\<rparr>)
            []
            \<lparr>model = ''qwen2.5'', timeout = 120, conversation_history = Map.empty\<rparr>
            5 ''hello'' ''You are Mercy'')
       = JInt 42
   \<and> get_conversation
         (fst (snd (generate_response
            (\<lambda>p. \<lparr>redirects_followed = 0,
                   outcome = PostResponds
                     \<lparr>status = 200,
                      json_result = Inr (JObj [(''message'', JObj [(''content'', JInt 42)])]),
                      text_result = Inr []\<rparr>\<rparr>)
            []
            \<lparr>model = ''qwen2.5'', timeout = 120, conversation_history = Map.empty\<rparr>
            5 ''hello'' ''You are Mercy''))) 5
       = [\<lparr>role = ''user'', content = JStr ''hello''\<rparr>,
          \<lparr>role = ''assistant'', content = JInt 42\<rparr>]"
proof -
  have e: "get_conversation
             \<lparr>model = ''qwen2.5'', timeout = 120, conversation_history = Map.empty\<rparr> 5 = []"
    by (simp add: get_conversation_def)
  show ?thesis
    by (simp add: well_formed_payload_def generate_response_def try_body_def session_post_def
          Let_def get_add_to_conversation e last_n_def)
qed

text \<open>
  Claim C1, amended. Whenever the model call fails in a way other than a 200 payload whose
  \<^verbatim>\<open>message.content\<close> is present and not a string (that is: the request raises a connection
  error, a timeout or any other exception; the status is not 200; the body of a 200
  response cannot be read as JSON, is not a dict, or has a \<^verbatim>\<open>message\<close> that is not a dict),
  \<open>generate_response\<close> returns the client unchanged, so the conversation history of every
  user is as before, and the returned value is a non-empty string.
\<close>

theorem generate_response_failure:
  assumes "call_failed (outcome (post (build_payload c user_id message system_prompt)))"
    and "\<not> content_not_text (outcome (post (build_payload c user_id message system_prompt)))"
  shows "\<exists>s. generate_response post issued c user_id message system_prompt
               = (JStr s, c,
                  snd (session_post post issued (build_payload c user_id message system_prompt)))
            \<and> s \<noteq> []"
proof -
  from try_body_failed [of post c user_id message system_prompt issued] assms obtain r where
    r: "try_body post issued c user_id message system_prompt
          = (r, c, snd (session_post post issued (build_payload c user_id message system_prompt)))"
    and ok: "case r of Inl e \<Rightarrow> True | Inr v \<Rightarrow> \<exists>s. v = JStr s \<and> s \<noteq> []"
    by blast
  show ?thesis
  proof (cases r)
    case (Inl e)
    with r show ?thesis
      by (simp add: generate_response_def handle_exception_nonempty)
  next
    case (Inr v)
    with r ok show ?thesis
      by (auto simp: generate_response_def)
  qed
qed

theorem generate_response_failure_witness:
  "call_failed (PostRaises (TimeoutError []))
   \<and> (\<exists>s. generate_response
              (\<lambda>p. \<lparr>redirects_followed = 0, outcome = PostRaises (TimeoutError [])\<rparr>) []
              \<lparr>model = ''qwen2.5'', timeout = 120,
               conversation_history = [5 \<mapsto> [\<lparr>role = ''user'', content = JStr ''hi''\<rparr>]]\<rparr>
              5 ''are you there?'' ''You are Mercy''
            = (JStr s,
               \<lparr>model = ''qwen2.5'', timeout = 120,
                conversation_history = [5 \<mapsto> [\<lparr>role = ''user'', content = JStr ''hi''\<rparr>]]\<rparr>,
               [Post (build_payload
                  \<lparr>model = ''qwen2.5'', timeout = 120,
                   conversation_history = [5 \<mapsto> [\<lparr>role = ''user'', content = JStr ''hi''\<rparr>]]\<rparr>
                  5 ''are you there?'' ''You are Mercy'')])
          \<and> s \<noteq> [])
   \<and> call_failed (PostResponds \<lparr>status = 500, json_result = Inr JNull,
                                 text_result = Inr ''Internal Server Error''\<rparr>)
   \<and> (\<exists>s. generate_response
              (\<lambda>p. \<lparr>redirects_followed = 0,
                     outcome = PostResponds \<lparr>status = 500, json_result = Inr JNull,
                                             text_result = Inr ''Internal Server Error''\<rparr>\<rparr>) []
              \<lparr>model = ''qwen2.5'', timeout = 120, conversation_history = Map.empty\<rparr>
              5 ''hello'' ''You are Mercy''
            = (JStr s,
               \<lparr>model = ''qwen2.5'', timeout = 120, conversation_history = Map.empty\<rparr>,
               [Post (build_payload
                  \<lparr>model = ''qwen2.5'', timeout = 120, conversation_history = Map.empty\<rparr>
                  5 ''hello'' ''You are Mercy'')])
          \<and> s \<noteq> [])
   \<and> call_failed (PostResponds \<lparr>status = 200, json_result = Inr (JArr []),
                                 text_result = Inr ''[]''\<rparr>)
   \<and> (\<exists>s. generate_response
              (\<lambda>p. \<lparr>redirects_followed = 0,
                     outcome = PostResponds \<lparr>status = 200, json_result = Inr (JArr []),
                                             text_result = Inr ''[]''\<rparr>\<rparr>) []
              \<lparr>model = ''qwen2.5'', timeout = 120, conversation_history = Map.empty\<rparr>
              5 ''hello'' ''You are Mercy''
            = (JStr s,
               \<lparr>model = ''qwen2.5'', timeout = 120, conversation_history = Map.empty\<rparr>,
               [Post (build_payload
                  \<lparr>model = ''qwen2.5'', timeout = 120, conversation_history = Map.empty\<rparr>
                  5 ''hello'' ''You are Mercy'')])
          \<and> s \<noteq> [])"
proof -
  let ?p1 = "\<lambda>p :: payload. \<lparr>redirects_followed = 0, outcome = PostRaises (TimeoutError [])\<rparr>"
  let ?p2 = "\<lambda>p :: payload. \<lparr>redirects_followed = 0,
                outcome = PostResponds \<lparr>status = 500, json_result = Inr JNull,
                                        text_result = Inr ''Internal Server Error''\<rparr>\<rparr>"
  let ?p3 = "\<lambda>p :: payload. \<lparr>redirects_followed = 0,
                outcome = PostResponds \<lparr>status = 200, json_result = Inr (JArr []),
                                        text_result = Inr ''[]''\<rparr>\<rparr>"
  let ?c1 = "\<lparr>model = ''qwen2.5'', timeout = 120,
              conversation_history = [5 \<mapsto> [\<lparr>role = ''user'', content = JStr ''hi''\<rparr>]]\<rparr>"
  let ?c2 = "\<lparr>model = ''qwen2.5'', timeout = 120, conversation_history = Map.empty\<rparr>"
  have h1: "call_failed (PostRaises (TimeoutError []))" by simp
  have h2: "call_failed (PostResponds \<lparr>status = 500, json_result = Inr JNull,
                                       text_result = Inr ''Internal Server Error''\<rparr>)"
    by simp
  have h3: "call_failed (PostResponds \<lparr>status = 200, json_result = Inr (JArr []),
                                       text_result = Inr ''[]''\<rparr>)"
    by (simp add: well_formed_payload_def)
  have a: "\<exists>s. generate_response ?p1 [] ?c1 5 ''are you there?'' ''You are Mercy''
            = (JStr s, ?c1, [Post (build_payload ?c1 5 ''are you there?'' ''You are Mercy'')])
          \<and> s \<noteq> []"
    using generate_response_failure [of ?p1 ?c1 5 "''are you there?''" "''You are Mercy''" "[]"]
    by (simp add: session_post_def)
  have b: "\<exists>s. generate_response ?p2 [] ?c2 5 ''hello'' ''You are Mercy''
            = (JStr s, ?c2, [Post (build_payload ?c2 5 ''hello'' ''You are Mercy'')])
          \<and> s \<noteq> []"
    using generate_response_failure [of ?p2 ?c2 5 "''hello''" "''You are Mercy''" "[]"]
    by (simp add: session_post_def)
  have c: "\<exists>s. generate_response ?p3 [] ?c2 5 ''hello'' ''You are Mercy''
            = (JStr s, ?c2, [Post (build_payload ?c2 5 ''hello'' ''You are Mercy'')])
          \<and> s \<noteq> []"
    using generate_response_failure [of ?p3 ?c2 5 "''hello''" "''You are Mercy''" "[]"]
    by (simp add: session_post_def well_formed_payload_def)
  from h1 h2 h3 a b c show ?thesis by blast
qed

text \<open>
  Claim C3. When the backend answers with status 200 and a payload that is a dict whose
  \<^verbatim>\<open>"message"\<close> entry is a dict or absent, \<open>generate_response\<close> returns the payload's
  \<^verbatim>\<open>message.content\<close>, or the empty string when that entry is absent, and the new client
  is the old one after two appends for that user: the user turn, then the assistant turn.
  The stored sequence is the old one followed by these two turns, cut to its last 10
  entries by the cap of \<open>add_to_conversation\<close> (nothing is cut when at most 8 turns were
  stored); other users' histories are unchanged.
\<close>

theorem generate_response_success:
  assumes "outcome (post (build_payload c user_id message system_prompt)) = PostResponds response"
    and "status response = 200"
    and "json_result response = Inr (JObj items)"
    and "map_of items ''message'' = Some (JObj msg) \<or> (map_of items ''message'' = None \<and> msg = [])"
    and "reply = (case map_of msg ''content'' of None \<Rightarrow> JStr [] | Some v \<Rightarrow> v)"
    and "generate_response post issued c user_id message system_prompt = (returned, c', issued')"
  shows "returned = reply
       \<and> c' = add_to_conversation (add_to_conversation c user_id ''user'' (JStr message))
                 user_id ''assistant'' reply
       \<and> get_conversation c' user_id
           = last_n 10 (get_conversation c user_id
                        @ [\<lparr>role = ''user'', content = JStr message\<rparr>,
                           \<lparr>role = ''assistant'', content = reply\<rparr>])
       \<and> (length (get_conversation c user_id) \<le> 8 \<longrightarrow>
            get_conversation c' user_id
              = get_conversation c user_id
                @ [\<lparr>role = ''user'', content = JStr message\<rparr>,
                   \<lparr>role = ''assistant'', content = reply\<rparr>])
       \<and> (\<forall>v. v \<noteq> user_id \<longrightarrow> conversation_history c' v = conversation_history c v)"
proof -
  have tb: "try_body post issued c user_id message system_prompt =
           (Inr reply,
            add_to_conversation (add_to_conversation c user_id ''user'' (JStr message))
              user_id ''assistant'' reply,
            snd (session_post post issued (build_payload c user_id message system_prompt)))"
    using try_body_success [of post c user_id message system_prompt response items msg issued]
          assms(1-5)
    by simp
  have r: "returned = reply"
    and c': "c' = add_to_conversation (add_to_conversation c user_id ''user'' (JStr message))
                 user_id ''assistant'' reply"
    using assms(6) by (auto simp: generate_response_def tb)
  have h: "get_conversation c' user_id
           = last_n 10 (get_conversation c user_id
                        @ [\<lparr>role = ''user'', content = JStr message\<rparr>,
                           \<lparr>role = ''assistant'', content = reply\<rparr>])"
    using last_n_idem_append [of 10 "get_conversation c user_id @ [\<lparr>role = ''user'', content = JStr message\<rparr>]"
            "[\<lparr>role = ''assistant'', content = reply\<rparr>]"]
    by (simp add: c' get_add_to_conversation)
  have s: "length (get_conversation c user_id) \<le> 8 \<longrightarrow>
            get_conversation c' user_id
              = get_conversation c user_id
                @ [\<lparr>role = ''user'', content = JStr message\<rparr>,
                   \<lparr>role = ''assistant'', content = reply\<rparr>]"
    by (simp add: h last_n_def)
  have o: "\<forall>v. v \<noteq> user_id \<longrightarrow> conversation_history c' v = conversation_history c v"
    by (simp add: c' get_add_to_conversation_other)
  from r c' h s o show ?thesis by blast
qed

theorem generate_response_success_witness:
  "status \<lparr>status = 200,
          json_result = Inr (JObj [(''model'', JStr ''qwen2.5''),
                                   (''message'', JObj [(''role'', JStr ''assistant''),
                                                       (''content'', JStr ''Hi there!'')])]),
          text_result = Inr []\<rparr> = 200
   \<and> map_of [(''model'', JStr ''qwen2.5''),
              (''message'', JObj [(''role'', JStr ''assistant''),
                                  (''content'', JStr ''Hi there!'')])] ''message''
       = Some (JObj [(''role'', JStr ''assistant''), (''content'', JStr ''Hi there!'')])
   \<and> fst (generate_response
            (\<lambda>p. \<lparr>redirects_followed = 0,
                   outcome = PostResponds
               \<lparr>status = 200,
                json_result = Inr (JObj [(''model'', JStr ''qwen2.5''),
                                         (''message'', JObj [(''role'', JStr ''assistant''),
                                                             (''content'', JStr ''Hi there!'')])]),
                text_result = Inr []\<rparr>\<rparr>) []
            \<lparr>model = ''qwen2.5'', timeout = 120, conversation_history = Map.empty\<rparr>
            5 ''hello'' ''You are Mercy'')
       = JStr ''Hi there!''
   \<and> get_conversation
         (fst (snd (generate_response
            (\<lambda>p. \<lparr>redirects_followed = 0,
                   outcome = PostResponds
               \<lparr>status = 200,
                json_result = Inr (JObj [(''model'', JStr ''qwen2.5''),
                                         (''message'', JObj [(''role'', JStr ''assistant''),
                                                             (''content'', JStr ''Hi there!'')])]),
                text_result = Inr []\<rparr>\<rparr>) []
            \<lparr>model = ''qwen2.5'', timeout = 120, conversation_history = Map.empty\<rparr>
            5 ''hello'' ''You are Mercy''))) 5
       = [\<lparr>role = ''user'', content = JStr ''hello''\<rparr>,
          \<lparr>role = ''assistant'', content = JStr ''Hi there!''\<rparr>]"
proof -
  let ?items = "[(''model'', JStr ''qwen2.5''),
                 (''message'', JObj [(''role'', JStr ''assistant''),
                                     (''content'', JStr ''Hi there!'')])]"
  let ?msg = "[(''role'', JStr ''assistant''), (''content'', JStr ''Hi there!'')]"
  let ?resp = "\<lparr>status = 200, json_result = Inr (JObj ?items), text_result = Inr []\<rparr>"
  let ?post = "\<lambda>p :: payload. \<lparr>redirects_followed = 0, outcome = PostResponds ?resp\<rparr>"
  let ?c = "\<lparr>model = ''qwen2.5'', timeout = 120, conversation_history = Map.empty\<rparr>"
  let ?g = "generate_response ?post [] ?c 5 ''hello'' ''You are Mercy''"
  have h1: "outcome (?post (build_payload ?c 5 ''hello'' ''You are Mercy'')) = PostResponds ?resp"
    by simp
  have h2: "status ?resp = 200" by simp
  have h3: "json_result ?resp = Inr (JObj ?items)" by simp
  have h4: "map_of ?items ''message'' = Some (JObj ?msg)
            \<or> (map_of ?items ''message'' = None \<and> ?msg = [])"
    by simp
  have h5: "JStr ''Hi there!'' = (case map_of ?msg ''content'' of None \<Rightarrow> JStr [] | Some v \<Rightarrow> v)"
    by simp
  have h6: "?g = (fst ?g, fst (snd ?g), snd (snd ?g))" by simp
  have e: "get_conversation ?c 5 = []" by (simp add: get_conversation_def)
  note concl = generate_response_success
         [of ?post ?c 5 "''hello''" "''You are Mercy''" ?resp ?items ?msg
             "JStr ''Hi there!''" "[]" "fst ?g" "fst (snd ?g)" "snd (snd ?g)", OF h1 h2 h3 h4 h5 h6]
  from concl have r: "fst ?g = JStr ''Hi there!''" by blast
  from concl have "get_conversation (fst (snd ?g)) 5
           = last_n 10 (get_conversation ?c 5
                        @ [\<lparr>role = ''user'', content = JStr ''hello''\<rparr>,
                           \<lparr>role = ''assistant'', content = JStr ''Hi there!''\<rparr>])"
    by blast
  then have h: "get_conversation (fst (snd ?g)) 5
           = [\<lparr>role = ''user'', content = JStr ''hello''\<rparr>,
              \<lparr>role = ''assistant'', content = JStr ''Hi there!''\<rparr>]"
    by (simp add: e last_n_def)
  have m: "map_of ?items ''message'' = Some (JObj ?msg)" by simp
  from h2 m r h show ?thesis by blast
qed

text \<open>
  Claim C6, as stated, fails: when the request raises an exception that is neither a
  connector error nor a timeout (here aiohttp's ServerDisconnectedError), the returned
  string carries the exception's text verbatim.
\<close>

theorem generate_response_exposes_exception_text:
  "fst (generate_response
          (\<lambda>p. \<lparr>redirects_followed = 0,
                 outcome = PostRaises (OtherException ''Server disconnected'')\<rparr>) []
          \<lparr>model = ''qwen2.5'', timeout = 120, conversation_history = Map.empty\<rparr>
          5 ''hello'' ''You are Mercy'')
     = JStr ''Oops! Something went wrong: Server disconnected''
   \<and> sublist ''Server disconnected'' ''Oops! Something went wrong: Server disconnected''"
proof -
  have "sublist ''Server disconnected'' (''Oops! Something went wrong: '' @ ''Server disconnected'')"
    by (rule sublist_append_leftI)
  then show ?thesis
    by (simp add: generate_response_def try_body_def session_post_def Let_def)
qed

text \<open>
  Claim C6, amended. On a failed call the returned string is: the fixed connection text
  for a connector error and the fixed timeout text for a timeout, whatever the
  exception's own text is; for a status other than 200 whose body is read, a fixed
  phrase around the status code, whatever the body is; and for every other exception
  (one raised by the request or by reading the body, or the AttributeError of \<^verbatim>\<open>.get\<close> on
  a payload that is not a dict or whose message is not a dict) the prefix
  \<^verbatim>\<open>Oops! Something went wrong: \<close> followed by the exception's text.
\<close>

theorem generate_response_fallback_text:
  assumes "pl = build_payload c user_id message system_prompt"
    and "returned = fst (generate_response post issued c user_id message system_prompt)"
  shows "(outcome (post pl) = PostRaises (ClientConnectorError t) \<longrightarrow>
            returned = JStr ''I can't reach my brain right now! Is Ollama running? Try: ollama serve'')
       \<and> (outcome (post pl) = PostRaises (TimeoutError t) \<longrightarrow>
            returned = JStr ''I'm taking too long to think... maybe we should talk about something simpler?'')
       \<and> (outcome (post pl) = PostRaises (OtherException t) \<longrightarrow>
            returned = JStr (''Oops! Something went wrong: '' @ t))
       \<and> (outcome (post pl) = PostResponds response \<and> status response \<noteq> 200
            \<and> text_result response = Inr body \<longrightarrow>
            returned = JStr (''Sorry, I got a '' @ str_int (status response)
                             @ '' error. Let me try again?''))
       \<and> (outcome (post pl) = PostResponds response \<and> status response \<noteq> 200
            \<and> text_result response = Inl e \<longrightarrow>
            returned = JStr (handle_exception e))
       \<and> (outcome (post pl) = PostResponds response \<and> status response = 200
            \<and> json_result response = Inl e \<longrightarrow>
            returned = JStr (handle_exception e))
       \<and> (outcome (post pl) = PostResponds response \<and> status response = 200
            \<and> json_result response = Inr result \<and> lookups_raise result \<longrightarrow>
            (\<exists>v. returned = JStr (''Oops! Something went wrong: '' @ [CHR 0x27] @ type_name v
                                   @ [CHR 0x27] @ '' object has no attribute ''
                                   @ [CHR 0x27] @ ''get'' @ [CHR 0x27])))"
proof -
  have a: "outcome (post pl) = PostRaises x \<longrightarrow> returned = JStr (handle_exception x)" for x
    using assms by (simp add: generate_response_def try_body_def session_post_def Let_def)
  have b: "outcome (post pl) = PostResponds response \<and> status response \<noteq> 200
            \<and> text_result response = Inr body \<longrightarrow>
            returned = JStr (''Sorry, I got a '' @ str_int (status response)
                             @ '' error. Let me try again?'')"
    using assms by (simp add: generate_response_def try_body_def session_post_def Let_def)
  have c: "outcome (post pl) = PostResponds response \<and> status response \<noteq> 200
            \<and> text_result response = Inl e \<longrightarrow>
            returned = JStr (handle_exception e)"
    using assms by (simp add: generate_response_def try_body_def session_post_def Let_def)
  have d: "outcome (post pl) = PostResponds response \<and> status response = 200
            \<and> json_result response = Inl e \<longrightarrow>
            returned = JStr (handle_exception e)"
    using assms by (simp add: generate_response_def try_body_def session_post_def Let_def)
  have f: "outcome (post pl) = PostResponds response \<and> status response = 200
            \<and> json_result response = Inr result \<and> lookups_raise result \<longrightarrow>
            (\<exists>v. returned = JStr (handle_exception (no_attribute_get v)))"
  proof (intro impI, elim conjE)
    assume p: "outcome (post pl) = PostResponds response" "status response = 200"
      "json_result response = Inr result" "lookups_raise result"
    from py_get_lookups_raise [OF p(4)] p(1-3) assms
    show "\<exists>v. returned = JStr (handle_exception (no_attribute_get v))"
      by (auto simp: generate_response_def try_body_def session_post_def Let_def
               split: sum.splits dest: py_get_Inl)
  qed
  from a [of "ClientConnectorError t"] a [of "TimeoutError t"] a [of "OtherException t"] b c d f
  show ?thesis
    by (simp add: no_attribute_get_def)
qed

theorem generate_response_fallback_text_witness:
  "status \<lparr>status = 404, json_result = Inr JNull,
           text_result = Inr ''model qwen2.5 not found, try pulling it first''\<rparr> \<noteq> 200
   \<and> fst (generate_response
            (\<lambda>p. \<lparr>redirects_followed = 0,
                   outcome = PostResponds
               \<lparr>status = 404, json_result = Inr JNull,
                text_result = Inr ''model qwen2.5 not found, try pulling it first''\<rparr>\<rparr>) []
            \<lparr>model = ''qwen2.5'', timeout = 120, conversation_history = Map.empty\<rparr>
            5 ''hello'' ''You are Mercy'')
       = JStr ''Sorry, I got a 404 error. Let me try again?''
   \<and> fst (generate_response
            (\<lambda>p. \<lparr>redirects_followed = 0,
                   outcome = PostRaises
                     (ClientConnectorError ''Cannot connect to host localhost:11434'')\<rparr>) []
            \<lparr>model = ''qwen2.5'', timeout = 120, conversation_history = Map.empty\<rparr>
            5 ''hello'' ''You are Mercy'')
       = JStr ''I can't reach my brain right now! Is Ollama running? Try: ollama serve''"
proof -
  let ?resp = "\<lparr>status = 404, json_result = Inr JNull,
                text_result = Inr ''model qwen2.5 not found, try pulling it first''\<rparr>"
  let ?p1 = "\<lambda>p :: payload. \<lparr>redirects_followed = 0, outcome = PostResponds ?resp\<rparr>"
  let ?p2 = "\<lambda>p :: payload. \<lparr>redirects_followed = 0,
                outcome = PostRaises
                  (ClientConnectorError ''Cannot connect to host localhost:11434'')\<rparr>"
  let ?c = "\<lparr>model = ''qwen2.5'', timeout = 120, conversation_history = Map.empty\<rparr>"
  let ?pl = "build_payload ?c 5 ''hello'' ''You are Mercy''"
  have s: "str_int 404 = ''404''" by code_simp
  have h: "status ?resp \<noteq> 200" by simp
  from generate_response_fallback_text
         [where pl = ?pl and c = ?c and user_id = 5 and message = "''hello''"
            and system_prompt = "''You are Mercy''" and post = ?p1 and issued = "[]"
            and response = ?resp
            and body = "''model qwen2.5 not found, try pulling it first''", OF refl refl]
  have a: "fst (generate_response ?p1 [] ?c 5 ''hello'' ''You are Mercy'')
           = JStr ''Sorry, I got a 404 error. Let me try again?''"
    using s by simp
  from generate_response_fallback_text
         [where pl = ?pl and c = ?c and user_id = 5 and message = "''hello''"
            and system_prompt = "''You are Mercy''" and post = ?p2 and issued = "[]"
            and t = "''Cannot connect to host localhost:11434''", OF refl refl]
  have b: "fst (generate_response ?p2 [] ?c 5 ''hello'' ''You are Mercy'')
       = JStr ''I can't reach my brain right now! Is Ollama running? Try: ollama serve''"
    by simp
  from h a b show ?thesis by blast
qed

text \<open>
  Claim C8, as stated, fails in its count of requests: the source calls
  \<^verbatim>\<open>session.post\<close> without \<^verbatim>\<open>allow_redirects=False\<close>, so when the backend answers the POST
  with a redirect the HTTP client issues a second request within the same invocation.
\<close>

theorem generate_response_two_requests_on_redirect:
  "snd (snd (generate_response
          (\<lambda>p. \<lparr>redirects_followed = 1,
                 outcome = PostResponds
                   \<lparr>status = 200,
                    json_result = Inr (JObj [(''message'', JObj [(''content'', JStr ''Hi there!'')])]),
                    text_result = Inr []\<rparr>\<rparr>) []
          \<lparr>model = ''qwen2.5'', timeout = 120, conversation_history = Map.empty\<rparr>
          5 ''hello'' ''You are Mercy''))
     = [Post (build_payload
                \<lparr>model = ''qwen2.5'', timeout = 120, conversation_history = Map.empty\<rparr>
                5 ''hello'' ''You are Mercy''),
        Redirect_follow_up]
   \<and> length (snd (snd (generate_response
          (\<lambda>p. \<lparr>redirects_followed = 1,
                 outcome = PostResponds
                   \<lparr>status = 200,
                    json_result = Inr (JObj [(''message'', JObj [(''content'', JStr ''Hi there!'')])]),
                    text_result = Inr []\<rparr>\<rparr>) []
          \<lparr>model = ''qwen2.5'', timeout = 120, conversation_history = Map.empty\<rparr>
          5 ''hello'' ''You are Mercy''))) = 2"
  by (simp add: generate_response_def try_body_def session_post_def Let_def)

text \<open>
  Claim C8, amended. Every run of \<open>generate_response\<close> makes exactly one call of
  \<^verbatim>\<open>session.post\<close>. Its body is the client's model name, the message list made of the
  system turn with the given prompt, the user's stored history in order and the user turn
  with the message, streaming off, and the options temperature 0.8, num\_predict 500,
  num\_ctx 4096, top\_k 40, top\_p 0.9. The requests issued by the run are that POST
  followed by one request of the HTTP client for each redirect it follows: exactly one
  request when the backend does not redirect.
\<close>

theorem generate_response_request:
  assumes "generate_response post issued c user_id message system_prompt = (returned, c', issued')"
    and "pl = \<lparr>model_name = model c,
               messages = [\<lparr>role = ''system'', content = JStr system_prompt\<rparr>]
                          @ get_conversation c user_id
                          @ [\<lparr>role = ''user'', content = JStr message\<rparr>],
               stream = False,
               options = \<lparr>temperature = 0.8, num_predict = 500, num_ctx = 4096,
                          top_k = 40, top_p = 0.9\<rparr>\<rparr>"
  shows "issued' = issued @ Post pl # replicate (redirects_followed (post pl)) Redirect_follow_up
       \<and> length (filter is_post issued') = length (filter is_post issued) + 1
       \<and> length issued' = length issued + 1 + redirects_followed (post pl)
       \<and> (redirects_followed (post pl) = 0 \<longrightarrow> issued' = issued @ [Post pl])"
proof -
  have p: "build_payload c user_id message system_prompt = pl"
    using assms(2) by (simp add: build_payload_def build_messages_def Let_def)
  have "issued' = snd (snd (generate_response post issued c user_id message system_prompt))"
    using assms(1) by simp
  then have a: "issued' = issued @ Post pl # replicate (redirects_followed (post pl)) Redirect_follow_up"
    by (simp add: generate_response_issued p session_post_def)
  have f: "filter is_post (replicate n Redirect_follow_up) = []" for n
    by (induction n) simp_all
  have b: "length (filter is_post issued') = length (filter is_post issued) + 1"
    by (simp add: a f)
  have c: "length issued' = length issued + 1 + redirects_followed (post pl)"
    by (simp add: a)
  have d: "redirects_followed (post pl) = 0 \<longrightarrow> issued' = issued @ [Post pl]"
    by (simp add: a)
  from a b c d show ?thesis by blast
qed

theorem generate_response_request_witness:
  "redirects_followed
     (\<lparr>redirects_followed = 0, outcome = PostRaises (TimeoutError [])\<rparr>) = 0
   \<and> snd (snd (generate_response
          (\<lambda>p. \<lparr>redirects_followed = 0, outcome = PostRaises (TimeoutError [])\<rparr>) []
          \<lparr>model = ''qwen2.5'', timeout = 120,
           conversation_history = [5 \<mapsto> [\<lparr>role = ''user'', content = JStr ''hi''\<rparr>,
                                         \<lparr>role = ''assistant'', content = JStr ''Hey!''\<rparr>]]\<rparr>
          5 ''hello'' ''You are Mercy''))
     = [Post \<lparr>model_name = ''qwen2.5'',
              messages = [\<lparr>role = ''system'', content = JStr ''You are Mercy''\<rparr>,
                          \<lparr>role = ''user'', content = JStr ''hi''\<rparr>,
                          \<lparr>role = ''assistant'', content = JStr ''Hey!''\<rparr>,
                          \<lparr>role = ''user'', content = JStr ''hello''\<rparr>],
              stream = False,
              options = \<lparr>temperature = 0.8, num_predict = 500, num_ctx = 4096,
                         top_k = 40, top_p = 0.9\<rparr>\<rparr>]"
proof -
  let ?post = "\<lambda>p :: payload. \<lparr>redirects_followed = 0, outcome = PostRaises (TimeoutError [])\<rparr>"
  let ?c = "\<lparr>model = ''qwen2.5'', timeout = 120,
             conversation_history = [5 \<mapsto> [\<lparr>role = ''user'', content = JStr ''hi''\<rparr>,
                                           \<lparr>role = ''assistant'', content = JStr ''Hey!''\<rparr>]]\<rparr>"
  let ?g = "generate_response ?post [] ?c 5 ''hello'' ''You are Mercy''"
  let ?pl = "\<lparr>model_name = model ?c,
               messages = [\<lparr>role = ''system'', content = JStr ''You are Mercy''\<rparr>]
                          @ get_conversation ?c 5
                          @ [\<lparr>role = ''user'', content = JStr ''hello''\<rparr>],
               stream = False,
               options = \<lparr>temperature = 0.8, num_predict = 500, num_ctx = 4096,
                          top_k = 40, top_p = 0.9\<rparr>\<rparr>"
  have h1: "?g = (fst ?g, fst (snd ?g), snd (snd ?g))" by simp
  have h: "get_conversation ?c 5 = [\<lparr>role = ''user'', content = JStr ''hi''\<rparr>,
                                     \<lparr>role = ''assistant'', content = JStr ''Hey!''\<rparr>]"
    by (simp add: get_conversation_def)
  have z: "redirects_followed (?post ?pl) = 0" by simp
  note t = generate_response_request
      [where post = ?post and issued = "[]" and c = ?c and user_id = 5 and message = "''hello''"
         and system_prompt = "''You are Mercy''" and returned = "fst ?g" and c' = "fst (snd ?g)"
         and issued' = "snd (snd ?g)" and pl = ?pl, OF h1 refl]
  from t [THEN conjunct2, THEN conjunct2, THEN conjunct2] z
  have "snd (snd ?g) = [] @ [Post ?pl]" by blast
  then show ?thesis by (simp add: h)
qed

text \<open>
  Claim C10. With an empty memory context \<open>generate_with_memory\<close> is \<open>generate_response\<close>:
  same returned value, same new client state, same requests.
\<close>

theorem generate_with_memory_empty_context:
  "generate_with_memory post issued c user_id message system_prompt []
     = generate_response post issued c user_id message system_prompt"
  by (simp add: generate_with_memory_def enhanced_prompt_def)

section \<open>Properties of mood detection\<close>

lemma dict_set_fresh: "key \<notin> fst ` set d \<Longrightarrow> dict_set d key v = d @ [(key, v)]"
  by (induction d) auto

lemma foldl_score_step:
  "distinct (map fst moods) \<Longrightarrow> fst ` set acc \<inter> fst ` set moods = {} \<Longrightarrow>
   foldl (score_step ml) acc moods
     = acc @ filter (\<lambda>p. snd p > 0) (map (scored ml) moods)"
proof (induction moods arbitrary: acc)
  case Nil
  then show ?case by simp
next
  case (Cons m moods)
  show ?case
  proof (cases "trigger_score (snd m) ml > 0")
    case True
    from Cons.prems have fresh: "fst m \<notin> fst ` set acc" by auto
    have step: "score_step ml acc m = acc @ [(fst m, trigger_score (snd m) ml)]"
      using True fresh by (simp add: score_step_def Let_def dict_set_fresh)
    have "fst ` set (acc @ [(fst m, trigger_score (snd m) ml)]) \<inter> fst ` set moods = {}"
      using Cons.prems by auto
    with Cons.IH [of "acc @ [(fst m, trigger_score (snd m) ml)]"] Cons.prems True step
    show ?thesis by (simp add: scored_def)
  next
    case False
    then have step: "score_step ml acc m = acc" by (simp add: score_step_def Let_def)
    have "fst ` set acc \<inter> fst ` set moods = {}" using Cons.prems by auto
    with Cons.IH [of acc] Cons.prems False step
    show ?thesis by (simp add: scored_def)
  qed
qed

lemma collect_scores_filter:
  "distinct (map fst moods) \<Longrightarrow>
   collect_scores moods ml = filter (\<lambda>p. snd p > 0) (map (scored ml) moods)"
  using foldl_score_step [of moods "[]" ml] by (simp add: collect_scores_def)

lemma max_scan_invariant:
  "seen = pre @ b # post \<Longrightarrow> \<forall>y\<in>set pre. snd y < snd b \<Longrightarrow> \<forall>y\<in>set post. snd y \<le> snd b \<Longrightarrow>
   \<exists>pre' post'. seen @ rest = pre' @ max_scan b rest # post'
      \<and> (\<forall>y\<in>set pre'. snd y < snd (max_scan b rest))
      \<and> (\<forall>y\<in>set post'. snd y \<le> snd (max_scan b rest))"
proof (induction rest arbitrary: seen pre b post)
  case Nil
  then show ?case by auto
next
  case (Cons item rest)
  show ?case
  proof (cases "snd item > snd b")
    case True
    have s: "seen @ [item] = (pre @ b # post) @ item # []" using Cons.prems by simp
    have p: "\<forall>y\<in>set (pre @ b # post). snd y < snd item" using Cons.prems True by fastforce
    from Cons.IH [OF s p] True show ?thesis by simp
  next
    case False
    have s: "seen @ [item] = pre @ b # (post @ [item])" using Cons.prems by simp
    have p: "\<forall>y\<in>set (post @ [item]). snd y \<le> snd b" using Cons.prems False by auto
    from Cons.IH [OF s Cons.prems(2) p] False show ?thesis by simp
  qed
qed

lemma max_scan_first_max:
  "\<exists>pre post. first # rest = pre @ max_scan first rest # post
      \<and> (\<forall>y\<in>set pre. snd y < snd (max_scan first rest))
      \<and> (\<forall>y\<in>set post. snd y \<le> snd (max_scan first rest))"
  using max_scan_invariant [of "[first]" "[]" first "[]" rest] by simp

lemma filter_eq_decompose:
  "filter P xs = pre @ x # post \<Longrightarrow>
   \<exists>pre' post'. xs = pre' @ x # post' \<and> filter P pre' = pre \<and> filter P post' = post \<and> P x"
proof (induction xs arbitrary: pre)
  case Nil
  then show ?case by simp
next
  case (Cons a xs)
  show ?case
  proof (cases "P a")
    case False
    with Cons.prems have "filter P xs = pre @ x # post" by simp
    from Cons.IH [OF this] obtain pre' post' where
      "xs = pre' @ x # post'" "filter P pre' = pre" "filter P post' = post" "P x" by blast
    with False have "a # xs = (a # pre') @ x # post' \<and> filter P (a # pre') = pre
                      \<and> filter P post' = post \<and> P x"
      by simp
    then show ?thesis by blast
  next
    case True
    show ?thesis
    proof (cases pre)
      case Nil
      with True Cons.prems have "a # xs = [] @ x # xs \<and> filter P [] = pre
                                 \<and> filter P xs = post \<and> P x"
        by simp
      then show ?thesis by blast
    next
      case (Cons p pre2)
      with True Cons.prems have a: "a = p" and f: "filter P xs = pre2 @ x # post" by simp_all
      from Cons.IH [OF f] obtain pre' post' where
        "xs = pre' @ x # post'" "filter P pre' = pre2" "filter P post' = post" "P x" by blast
      with True a Cons have "a # xs = (a # pre') @ x # post' \<and> filter P (a # pre') = pre
                      \<and> filter P post' = post \<and> P x"
        by simp
      then show ?thesis by blast
    qed
  qed
qed

lemma first_max_of_scores:
  assumes "distinct (map fst moods)"
    and "collect_scores moods ml = first # rest"
  shows "\<exists>pre cfg post. moods = pre @ (fst (max_scan first rest), cfg) # post
           \<and> 0 < trigger_score cfg ml
           \<and> (\<forall>m\<in>set pre. trigger_score (snd m) ml < trigger_score cfg ml)
           \<and> (\<forall>m\<in>set post. trigger_score (snd m) ml \<le> trigger_score cfg ml)"
proof -
  let ?P = "\<lambda>p :: string \<times> nat. snd p > 0"
  let ?best = "max_scan first rest"
  from max_scan_first_max [of first rest] obtain fpre fpost where
    d: "first # rest = fpre @ ?best # fpost"
    and lt: "\<forall>y\<in>set fpre. snd y < snd ?best"
    and le: "\<forall>y\<in>set fpost. snd y \<le> snd ?best"
    by blast
  from assms d have "filter ?P (map (scored ml) moods) = fpre @ ?best # fpost"
    by (simp add: collect_scores_filter)
  from filter_eq_decompose [OF this] obtain spre spost where
    s: "map (scored ml) moods = spre @ ?best # spost"
    and fp: "filter ?P spre = fpre" and fq: "filter ?P spost = fpost" and pos: "snd ?best > 0"
    by blast
  from s obtain pre m post where
    m: "moods = pre @ m # post" and mp: "map (scored ml) pre = spre"
    and mb: "scored ml m = ?best" and mq: "map (scored ml) post = spost"
    by (auto simp: map_eq_append_conv map_eq_Cons_conv)
  from mb have "snd (scored ml m) = snd ?best" and "fst (scored ml m) = fst ?best"
    by simp_all
  then have best: "trigger_score (snd m) ml = snd ?best" and name: "fst m = fst ?best"
    by (simp_all add: scored_def)
  have a: "trigger_score (snd x) ml < trigger_score (snd m) ml" if "x \<in> set pre" for x
  proof (cases "trigger_score (snd x) ml > 0")
    case True
    with that mp fp have "scored ml x \<in> set fpre" by (auto simp: scored_def)
    with lt best show ?thesis by (auto simp: scored_def)
  next
    case False
    with pos best show ?thesis by simp
  qed
  have b: "trigger_score (snd x) ml \<le> trigger_score (snd m) ml" if "x \<in> set post" for x
  proof (cases "trigger_score (snd x) ml > 0")
    case True
    with that mq fq have "scored ml x \<in> set fpost" by (auto simp: scored_def)
    with le best show ?thesis by (auto simp: scored_def)
  next
    case False
    then show ?thesis by simp
  qed
  have "moods = pre @ (fst ?best, snd m) # post" using m name by (cases m) simp
  moreover have "0 < trigger_score (snd m) ml" using pos best by simp
  moreover have "\<forall>x\<in>set pre. trigger_score (snd x) ml < trigger_score (snd m) ml"
    using a by blast
  moreover have "\<forall>x\<in>set post. trigger_score (snd x) ml \<le> trigger_score (snd m) ml"
    using b by blast
  ultimately show ?thesis by blast
qed

lemma collect_scores_empty:
  assumes "distinct (map fst moods)"
  shows "collect_scores moods ml = [] \<longleftrightarrow> (\<forall>m\<in>set moods. trigger_score (snd m) ml = 0)"
  using assms by (auto simp: collect_scores_filter filter_empty_conv scored_def)

lemma MOODS_distinct: "distinct (map fst MOODS)"
  by (simp add: MOODS_def)

lemma trigger_score_card:
  "distinct (triggers cfg) \<Longrightarrow>
   trigger_score cfg ml = card {t \<in> set (triggers cfg). sublist t ml}"
proof -
  assume "distinct (triggers cfg)"
  then have "length (filter (\<lambda>t. sublist t ml) (triggers cfg))
             = card ({t. sublist t ml} \<inter> set (triggers cfg))"
    by (rule distinct_length_filter)
  moreover have "{t. sublist t ml} \<inter> set (triggers cfg) = {t \<in> set (triggers cfg). sublist t ml}"
    by auto
  ultimately show ?thesis by (simp add: trigger_score_def)
qed

lemma MOODS_triggers_distinct: "\<forall>m\<in>set MOODS. distinct (triggers (snd m))"
  by (simp add: MOODS_def)

text \<open>
  Claim C4. The score of a mood is the number of its trigger keywords that occur as
  substrings of the lower-cased text, each keyword counted once. When every mood scores 0,
  \<open>detect_mood\<close> returns \<^verbatim>\<open>caring\<close>. Otherwise it returns the mood that splits the table
  \<open>MOODS\<close>, read in declaration order, so that every mood declared before it scores
  strictly less and every mood declared after it scores at most as much: the earliest
  mood with the maximum score.
\<close>

theorem detect_mood_first_maximum:
  assumes "message_lower = lower message"
  shows "((\<forall>m\<in>set MOODS. trigger_score (snd m) message_lower = 0) \<longrightarrow>
            detect_mood message = ''caring'')
       \<and> ((\<exists>m\<in>set MOODS. 0 < trigger_score (snd m) message_lower) \<longrightarrow>
            (\<exists>pre cfg post.
               MOODS = pre @ (detect_mood message, cfg) # post
               \<and> (\<forall>m\<in>set pre. trigger_score (snd m) message_lower < trigger_score cfg message_lower)
               \<and> (\<forall>m\<in>set post. trigger_score (snd m) message_lower \<le> trigger_score cfg message_lower)))
       \<and> (\<forall>m\<in>set MOODS. trigger_score (snd m) message_lower
             = card {t \<in> set (triggers (snd m)). sublist t message_lower})"
proof -
  have a: "(\<forall>m\<in>set MOODS. trigger_score (snd m) message_lower = 0) \<longrightarrow>
            detect_mood message = ''caring''"
    using collect_scores_empty [OF MOODS_distinct, of message_lower] assms
    by (auto simp: detect_mood_def Let_def)
  have b: "\<exists>pre cfg post.
               MOODS = pre @ (detect_mood message, cfg) # post
               \<and> (\<forall>m\<in>set pre. trigger_score (snd m) message_lower < trigger_score cfg message_lower)
               \<and> (\<forall>m\<in>set post. trigger_score (snd m) message_lower \<le> trigger_score cfg message_lower)"
    if "\<exists>m\<in>set MOODS. 0 < trigger_score (snd m) message_lower"
  proof -
    from that collect_scores_empty [OF MOODS_distinct, of message_lower]
    have "collect_scores MOODS message_lower \<noteq> []" by auto
    then obtain first rest where c: "collect_scores MOODS message_lower = first # rest"
      by (cases "collect_scores MOODS message_lower") auto
    then have d: "detect_mood message = fst (max_scan first rest)"
      using assms by (simp add: detect_mood_def Let_def)
    from first_max_of_scores [OF MOODS_distinct c] d show ?thesis by metis
  qed
  have c: "\<forall>m\<in>set MOODS. trigger_score (snd m) message_lower
             = card {t \<in> set (triggers (snd m)). sublist t message_lower}"
    using MOODS_triggers_distinct trigger_score_card by blast
  from a b c show ?thesis by blast
qed

theorem detect_mood_first_maximum_witness:
  "(\<exists>m\<in>set MOODS. 0 < trigger_score (snd m) (lower ''I have ANXIETY''))
   \<and> map (\<lambda>m. (fst m, trigger_score (snd m) (lower ''I have ANXIETY''))) MOODS
       = [(''caring'', 0), (''playful'', 0), (''serious'', 0), (''supportive'', 0),
          (''protective'', 1), (''calm'', 1), (''happy'', 0)]
   \<and> detect_mood ''I have ANXIETY'' = ''protective''
   \<and> (\<exists>pre cfg post.
         MOODS = pre @ (''protective'', cfg) # post
         \<and> (\<forall>m\<in>set pre. trigger_score (snd m) (lower ''I have ANXIETY'')
                            < trigger_score cfg (lower ''I have ANXIETY''))
         \<and> (\<forall>m\<in>set post. trigger_score (snd m) (lower ''I have ANXIETY'')
                            \<le> trigger_score cfg (lower ''I have ANXIETY'')))"
proof -
  have h: "\<exists>m\<in>set MOODS. 0 < trigger_score (snd m) (lower ''I have ANXIETY'')"
    by code_simp
  have s: "map (\<lambda>m. (fst m, trigger_score (snd m) (lower ''I have ANXIETY''))) MOODS
       = [(''caring'', 0), (''playful'', 0), (''serious'', 0), (''supportive'', 0),
          (''protective'', 1), (''calm'', 1), (''happy'', 0)]"
    by code_simp
  have e: "detect_mood ''I have ANXIETY'' = ''protective''"
    by code_simp
  from detect_mood_first_maximum [of "lower ''I have ANXIETY''" "''I have ANXIETY''", OF refl] h
  have "\<exists>pre cfg post.
         MOODS = pre @ (detect_mood ''I have ANXIETY'', cfg) # post
         \<and> (\<forall>m\<in>set pre. trigger_score (snd m) (lower ''I have ANXIETY'')
                            < trigger_score cfg (lower ''I have ANXIETY''))
         \<and> (\<forall>m\<in>set post. trigger_score (snd m) (lower ''I have ANXIETY'')
                            \<le> trigger_score cfg (lower ''I have ANXIETY''))"
    by blast
  with h s e show ?thesis by simp
qed

section \<open>Properties of the memory digest and the effective prompt\<close>

lemma foldl_append_bullets:
  "foldl (\<lambda>acc x. acc @ ''- '' @ f x @ ''\<newline>'') start xs = start @ bullets (map f xs)"
  by (induction xs arbitrary: start) (simp_all add: bullets_def)

lemma facts_section_bullets:
  "facts_section facts =
     (if facts = [] then [] else ''I remember:\<newline>'' @ bullets (map fact_content (last_n 3 facts)))"
  unfolding facts_section_def foldl_append_bullets by simp

lemma tasks_section_bullets:
  "tasks_section memory_context tasks =
     memory_context
     @ (if tasks = [] then [] else ''\<newline>Current tasks:\<newline>'' @ bullets (map description (take 3 tasks)))"
  unfolding tasks_section_def foldl_append_bullets by simp

text \<open>
  Claim C7. The prompt that \<open>generate_with_memory\<close> sends in the system turn is the system
  prompt followed by the fixed header \<^verbatim>\<open>CONTEXT ABOUT YOUR FRIEND:\<close> and the digest exactly
  when the digest is not empty, and the system prompt itself otherwise. The digest built
  by \<open>handle_message\<close> is empty exactly when the facts and the tasks snapshots are both
  empty; each of its two sections, header and bullets, is present only when its snapshot
  has an entry, and then it has at least one bullet.
\<close>

theorem effective_prompt_digest:
  "(memory_context \<noteq> [] \<longrightarrow>
      enhanced_prompt system_prompt memory_context
        = system_prompt @ ''\<newline>\<newline>CONTEXT ABOUT YOUR FRIEND:\<newline>'' @ memory_context)
   \<and> (memory_context = [] \<longrightarrow> enhanced_prompt system_prompt memory_context = system_prompt)
   \<and> (enhanced_prompt system_prompt memory_context
        = system_prompt @ ''\<newline>\<newline>CONTEXT ABOUT YOUR FRIEND:\<newline>'' @ memory_context
       \<longleftrightarrow> memory_context \<noteq> [])
   \<and> snd (snd (generate_with_memory post issued c user_id message system_prompt memory_context))
       = issued
         @ Post (build_payload c user_id message (enhanced_prompt system_prompt memory_context))
         # replicate
             (redirects_followed
                (post (build_payload c user_id message
                         (enhanced_prompt system_prompt memory_context))))
             Redirect_follow_up
   \<and> build_memory_context [] [] = []
   \<and> enhanced_prompt system_prompt (build_memory_context [] []) = system_prompt
   \<and> (build_memory_context facts tasks = [] \<longleftrightarrow> facts = [] \<and> tasks = [])
   \<and> build_memory_context facts tasks
       = (if facts = [] then []
          else ''I remember:\<newline>'' @ bullets (map fact_content (last_n 3 facts)))
         @ (if tasks = [] then []
            else ''\<newline>Current tasks:\<newline>'' @ bullets (map description (take 3 tasks)))
   \<and> (facts \<noteq> [] \<longrightarrow> last_n 3 facts \<noteq> [])
   \<and> (tasks \<noteq> [] \<longrightarrow> take 3 tasks \<noteq> [])"
proof -
  have a: "memory_context \<noteq> [] \<longrightarrow>
      enhanced_prompt system_prompt memory_context
        = system_prompt @ ''\<newline>\<newline>CONTEXT ABOUT YOUR FRIEND:\<newline>'' @ memory_context"
    by (simp add: enhanced_prompt_def)
  have b: "memory_context = [] \<longrightarrow> enhanced_prompt system_prompt memory_context = system_prompt"
    by (simp add: enhanced_prompt_def)
  have c: "enhanced_prompt system_prompt memory_context
        = system_prompt @ ''\<newline>\<newline>CONTEXT ABOUT YOUR FRIEND:\<newline>'' @ memory_context
       \<longleftrightarrow> memory_context \<noteq> []"
    by (simp add: enhanced_prompt_def)
  have d: "snd (snd (generate_with_memory post issued c user_id message system_prompt memory_context))
       = issued
         @ Post (build_payload c user_id message (enhanced_prompt system_prompt memory_context))
         # replicate
             (redirects_followed
                (post (build_payload c user_id message
                         (enhanced_prompt system_prompt memory_context))))
             Redirect_follow_up"
    by (simp add: generate_with_memory_def generate_response_issued session_post_def)
  have e: "build_memory_context [] [] = []"
    by (simp add: build_memory_context_def tasks_section_def facts_section_def)
  have f: "enhanced_prompt system_prompt (build_memory_context [] []) = system_prompt"
    by (simp add: e enhanced_prompt_def)
  have g: "build_memory_context facts tasks
       = (if facts = [] then []
          else ''I remember:\<newline>'' @ bullets (map fact_content (last_n 3 facts)))
         @ (if tasks = [] then []
            else ''\<newline>Current tasks:\<newline>'' @ bullets (map description (take 3 tasks)))"
    by (simp add: build_memory_context_def tasks_section_bullets facts_section_bullets)
  have h: "build_memory_context facts tasks = [] \<longleftrightarrow> facts = [] \<and> tasks = []"
    by (simp add: g)
  have i: "facts \<noteq> [] \<longrightarrow> last_n 3 facts \<noteq> []"
    by (cases facts) (auto simp: last_n_def)
  have j: "tasks \<noteq> [] \<longrightarrow> take 3 tasks \<noteq> []"
    by simp
  from a b c d e f g h i j show ?thesis by blast
qed

theorem effective_prompt_digest_witness:
  "''I remember:\<newline>- likes tea\<newline>'' \<noteq> []
   \<and> enhanced_prompt ''You are Mercy'' ''I remember:\<newline>- likes tea\<newline>''
       = ''You are Mercy\<newline>\<newline>CONTEXT ABOUT YOUR FRIEND:\<newline>I remember:\<newline>- likes tea\<newline>''
   \<and> build_memory_context [] [] = []
   \<and> enhanced_prompt ''You are Mercy'' (build_memory_context [] []) = ''You are Mercy''
   \<and> build_memory_context []
         [\<lparr>task_id = ''e5f6a7b8'', description = ''buy milk'', due_date = [],
           completed = False, priority = ''normal''\<rparr>] \<noteq> []"
proof -
  note t = effective_prompt_digest
      [where memory_context = "''I remember:\<newline>- likes tea\<newline>''"
         and system_prompt = "''You are Mercy''"
         and facts = "[]"
         and tasks = "[\<lparr>task_id = ''e5f6a7b8'', description = ''buy milk'', due_date = [],
                        completed = False, priority = ''normal''\<rparr>]"
         and post = "\<lambda>p. \<lparr>redirects_followed = 0, outcome = PostRaises (TimeoutError [])\<rparr>"
         and issued = "[]"
         and c = "\<lparr>model = ''qwen2.5'', timeout = 120, conversation_history = Map.empty\<rparr>"
         and user_id = 5 and message = "''hello''"]
  have n: "''I remember:\<newline>- likes tea\<newline>'' \<noteq> []" by simp
  from t [THEN conjunct1] n
  have a: "enhanced_prompt ''You are Mercy'' ''I remember:\<newline>- likes tea\<newline>''
       = ''You are Mercy\<newline>\<newline>CONTEXT ABOUT YOUR FRIEND:\<newline>I remember:\<newline>- likes tea\<newline>''"
    by simp
  note t4 = t [THEN conjunct2, THEN conjunct2, THEN conjunct2, THEN conjunct2]
  have b: "build_memory_context [] [] = []"
    by (rule t4 [THEN conjunct1])
  have c: "enhanced_prompt ''You are Mercy'' (build_memory_context [] []) = ''You are Mercy''"
    by (rule t4 [THEN conjunct2, THEN conjunct1])
  from t4 [THEN conjunct2, THEN conjunct2, THEN conjunct1]
  have d: "build_memory_context []
         [\<lparr>task_id = ''e5f6a7b8'', description = ''buy milk'', due_date = [],
           completed = False, priority = ''normal''\<rparr>] \<noteq> []"
    by simp
  from n a b c d show ?thesis by blast
qed

text \<open>
  Claim C5 at a concrete store. User 1 has four facts, saved on four successive days.
  \<open>get_facts\<close> returns them most recent first, and the digest of \<open>handle_message\<close> lists
  the last three entries of that list: the three oldest facts. The most recent fact,
  \<^verbatim>\<open>plays chess\<close>, is not in the digest.
\<close>

theorem memory_digest_keeps_oldest_facts:
  "get_facts
     [\<lparr>row_fact_id = ''a1b2c3d4'', row_user_id = 1, row_content = ''likes tea'',
       row_created_at = ''2024-01-01T10:00:00''\<rparr>,
      \<lparr>row_fact_id = ''b2c3d4e5'', row_user_id = 1, row_content = ''has a cat'',
       row_created_at = ''2024-01-02T10:00:00''\<rparr>,
      \<lparr>row_fact_id = ''c3d4e5f6'', row_user_id = 1, row_content = ''lives in Oslo'',
       row_created_at = ''2024-01-03T10:00:00''\<rparr>,
      \<lparr>row_fact_id = ''d4e5f6a7'', row_user_id = 1, row_content = ''plays chess'',
       row_created_at = ''2024-01-04T10:00:00''\<rparr>] 1
   = [\<lparr>fact_id = ''d4e5f6a7'', fact_content = ''plays chess'', created_at = ''2024-01-04T10:00:00''\<rparr>,
      \<lparr>fact_id = ''c3d4e5f6'', fact_content = ''lives in Oslo'', created_at = ''2024-01-03T10:00:00''\<rparr>,
      \<lparr>fact_id = ''b2c3d4e5'', fact_content = ''has a cat'', created_at = ''2024-01-02T10:00:00''\<rparr>,
      \<lparr>fact_id = ''a1b2c3d4'', fact_content = ''likes tea'', created_at = ''2024-01-01T10:00:00''\<rparr>]
   \<and> memory_context_of
     [\<lparr>row_fact_id = ''a1b2c3d4'', row_user_id = 1, row_content = ''likes tea'',
       row_created_at = ''2024-01-01T10:00:00''\<rparr>,
      \<lparr>row_fact_id = ''b2c3d4e5'', row_user_id = 1, row_content = ''has a cat'',
       row_created_at = ''2024-01-02T10:00:00''\<rparr>,
      \<lparr>row_fact_id = ''c3d4e5f6'', row_user_id = 1, row_content = ''lives in Oslo'',
       row_created_at = ''2024-01-03T10:00:00''\<rparr>,
      \<lparr>row_fact_id = ''d4e5f6a7'', row_user_id = 1, row_content = ''plays chess'',
       row_created_at = ''2024-01-04T10:00:00''\<rparr>] [] 1
   = ''I remember:\<newline>- lives in Oslo\<newline>- has a cat\<newline>- likes tea\<newline>''"
  by code_simp

end
